theory Spec2Isabelle
  imports Main "HOL-Library.Word"
begin

section \<open>Basic NUMA portability routines (src/port/pg_numa.c)\<close>

text \<open>
  The file is compiled in one of two shapes, selected by the preprocessor symbol
  \<open>USE_LIBNUMA\<close>: with it, every routine forwards to libnuma; without it, the
  routines are empty wrappers. Inside the wrapper shape \<open>WIN32\<close> selects how the
  default page size is read. Both symbols are fields of the build configuration, so one
  definition per routine covers every shape of the file.
\<close>

subsection \<open>C types\<close>

type_synonym cint = "32 word" \<comment> \<open>C \<open>int\<close>\<close>
type_synonym clong = "64 word" \<comment> \<open>C \<open>long\<close> / \<open>unsigned long\<close> (LP64)\<close>
type_synonym Size = "64 word" \<comment> \<open>\<open>size_t\<close>\<close>
type_synonym addr = "64 word" \<comment> \<open>a pointer value\<close>

record build =
  USE_LIBNUMA :: bool
  WIN32 :: bool

text \<open>The enum \<open>HugePagesStatus\<close> of storage/pg_shmem.h.\<close>

datatype HugePagesStatus =
  HUGE_PAGES_OFF | HUGE_PAGES_ON | HUGE_PAGES_TRY | HUGE_PAGES_UNKNOWN

subsection \<open>The host: what the operating system and libnuma answer\<close>

text \<open>
  The routines called but not defined in pg_numa.c are parameters of the model. Each field
  is the answer of the external routine of the same name on this host. A routine that can
  fail also says what it does to \<open>errno\<close>: \<open>None\<close> when it leaves \<open>errno\<close> alone,
  \<open>Some e\<close> when it leaves \<open>e\<close> there.
  \<^item> \<open>numa_available\<close>: libnuma's answer (it probes \<open>get_mempolicy\<close>) and the
    \<open>errno\<close> the probe leaves;
  \<^item> \<open>numa_max_node\<close>: the highest node number libnuma has on record;
  \<^item> \<open>numa_move_pages\<close>: for a pid and the list of page addresses read from the
    \<open>pages\<close> array, the return value, the node numbers stored into \<open>status\<close> and the
    \<open>errno\<close> left (the call is made with \<open>nodes = NULL\<close> and \<open>flags = 0\<close>, i.e.
    as a query);
  \<^item> \<open>sysconf_SC_PAGESIZE\<close>: the \<open>long\<close> returned by \<open>sysconf(_SC_PAGESIZE)\<close>;
  \<^item> \<open>dwPageSize\<close>: the \<open>DWORD\<close> field filled in by \<open>GetSystemInfo\<close>;
  \<^item> \<open>GetHugePageSize\<close>: the value that \<open>GetHugePageSize(&os_page_size, NULL)\<close>
    stores through its first argument, and the \<open>errno\<close> it leaves.
\<close>

record host =
  numa_available :: "cint \<times> cint option"
  numa_max_node :: cint
  numa_move_pages :: "cint \<Rightarrow> addr list \<Rightarrow> cint \<times> cint list \<times> cint option"
  sysconf_SC_PAGESIZE :: clong
  dwPageSize :: "32 word"
  GetHugePageSize :: "Size \<times> cint option"

subsection \<open>The process state\<close>

text \<open>
  Everything a routine of this file could read or write outside its own locals:
  \<open>errno\<close>, the engine's global \<open>huge_pages_status\<close>, the engine's diagnostic
  channel, the state of the memory allocator (opaque), and the memory of the process, one
  byte per address. The caller's arrays live in that one memory, so a \<open>status\<close> array
  that overlaps the \<open>pages\<close> array is overwritten together with it.
  pg_numa.c itself defines no variable of static storage, so the record has no field that
  belongs to this layer.
\<close>

datatype elevel = DEBUG1 | LOG | INFO | NOTICE | WARNING | ERROR | FATAL | PANIC

datatype sqlstate = ERRCODE_EXTERNAL_ROUTINE_EXCEPTION

record report =
  r_elevel :: elevel
  r_errcode :: "sqlstate option" \<comment> \<open>\<open>None\<close>: the caller gave none (\<open>elog\<close>)\<close>
  r_message :: string

record world =
  errno :: cint
  huge_pages_status :: HugePagesStatus
  diag :: "report list"
  mcxt :: nat
  mem :: "addr \<Rightarrow> 8 word"

text \<open>
  A routine either returns a value and the new state, or leaves through the engine's
  error exit (\<open>ereport\<close> at \<open>ERROR\<close> or above, a \<open>longjmp\<close>).
\<close>

datatype pg_error = Raised elevel string

type_synonym 'a io = "world \<Rightarrow> pg_error + 'a \<times> world"

text \<open>What an external routine does to \<open>errno\<close>.\<close>

definition leave_errno :: "cint option \<Rightarrow> world \<Rightarrow> world" where
  "leave_errno eo w = (case eo of None \<Rightarrow> w | Some e \<Rightarrow> w\<lparr>errno := e\<rparr>)"

subsection \<open>Memory as the caller's arrays\<close>

text \<open>
  Objects are little-endian. An \<open>int\<close> takes four bytes, a pointer eight. \<open>region p n\<close>
  is the set of the \<open>n\<close> byte addresses from \<open>p\<close> on (addresses wrap around).
\<close>

definition region :: "addr \<Rightarrow> nat \<Rightarrow> addr set" where
  "region p n = set (map (\<lambda>k. p + of_nat k) [0 ..< n])"

definition load_int :: "(addr \<Rightarrow> 8 word) \<Rightarrow> addr \<Rightarrow> cint" where
  "load_int m p =
     sum_list (map (\<lambda>k. push_bit (8 * k) (ucast (m (p + of_nat k)))) [0 ..< 4])"

definition load_ptr :: "(addr \<Rightarrow> 8 word) \<Rightarrow> addr \<Rightarrow> addr" where
  "load_ptr m p =
     sum_list (map (\<lambda>k. push_bit (8 * k) (ucast (m (p + of_nat k)))) [0 ..< 8])"

definition store_int :: "(addr \<Rightarrow> 8 word) \<Rightarrow> addr \<Rightarrow> cint \<Rightarrow> (addr \<Rightarrow> 8 word)" where
  "store_int m p v =
     m(p := ucast v, p + 1 := ucast (drop_bit 8 v),
       p + 2 := ucast (drop_bit 16 v), p + 3 := ucast (drop_bit 24 v))"

text \<open>The memory read as an array of pointers (\<open>void **\<close>) and as an array of ints.\<close>

definition ptr_mem :: "world \<Rightarrow> addr \<Rightarrow> addr" where
  "ptr_mem w a = load_ptr (mem w) a"

definition int_mem :: "world \<Rightarrow> addr \<Rightarrow> cint" where
  "int_mem w a = load_int (mem w) a"

subsection \<open>The four queries\<close>

text \<open>\<open>pg_numa_init\<close>: lines 39-45 with libnuma, lines 126-131 without.\<close>

definition pg_numa_init :: "build \<Rightarrow> host \<Rightarrow> cint io" where
  "pg_numa_init b h w =
     (if USE_LIBNUMA b
      then (case numa_available h of (r, eo) \<Rightarrow> Inr (r, leave_errno eo w))
      else Inr (- 1, w))"

text \<open>
  Writing \<open>status[i]\<close> for the node numbers the kernel reported: \<open>status\<close> is an
  \<open>int *\<close>, so element \<open>i\<close> lives at byte offset \<open>4 * i\<close>.
\<close>

fun store_status :: "(addr \<Rightarrow> 8 word) \<Rightarrow> addr \<Rightarrow> cint list \<Rightarrow> (addr \<Rightarrow> 8 word)" where
  "store_status m p [] = m"
| "store_status m p (x # xs) = store_status (store_int m p x) (p + 4) xs"

text \<open>Reading \<open>pages[0 .. count - 1]\<close>: element \<open>i\<close> of a \<open>void **\<close> is at offset \<open>8 * i\<close>.\<close>

definition load_pages :: "(addr \<Rightarrow> addr) \<Rightarrow> addr \<Rightarrow> clong \<Rightarrow> addr list" where
  "load_pages m pages count = map (\<lambda>i. m (pages + 8 * of_nat i)) [0 ..< unat count]"

text \<open>
  \<open>pg_numa_query_pages\<close>: lines 47-51 with libnuma, lines 133-137 without. With libnuma
  the kernel reads the \<open>count\<close> page addresses, stores at most \<open>count\<close> node numbers
  into \<open>status\<close>, and may set \<open>errno\<close>.
\<close>

definition pg_numa_query_pages ::
  "build \<Rightarrow> host \<Rightarrow> cint \<Rightarrow> clong \<Rightarrow> addr \<Rightarrow> addr \<Rightarrow> cint io" where
  "pg_numa_query_pages b h pid count pages status w =
     (if USE_LIBNUMA b
      then (case numa_move_pages h pid (load_pages (ptr_mem w) pages count) of
              (r, nodes, eo) \<Rightarrow>
                Inr (r, leave_errno eo
                     (w\<lparr>mem := store_status (mem w) status (take (unat count) nodes)\<rparr>)))
      else Inr (0, w))"

text \<open>\<open>pg_numa_get_max_node\<close>: lines 53-57 with libnuma, lines 139-143 without.\<close>

definition pg_numa_get_max_node :: "build \<Rightarrow> host \<Rightarrow> cint io" where
  "pg_numa_get_max_node b h w =
     (if USE_LIBNUMA b then Inr (numa_max_node h, w) else Inr (0, w))"

text \<open>
  The default page size as the file reads it. With libnuma (lines 59-68) it is always
  \<open>sysconf(_SC_PAGESIZE)\<close>; the wrapper (lines 145-160) reads \<open>sysinfo.dwPageSize\<close>
  under \<open>WIN32\<close>. The \<open>long\<close> is converted to \<open>Size\<close> keeping its 64 bits, the
  \<open>DWORD\<close> is zero-extended.
\<close>

definition os_page_size :: "build \<Rightarrow> host \<Rightarrow> Size" where
  "os_page_size b h =
     (if USE_LIBNUMA b then sysconf_SC_PAGESIZE h
      else if \<not> WIN32 b then sysconf_SC_PAGESIZE h
      else ucast (dwPageSize h))"

text \<open>
  \<open>pg_numa_get_pagesize\<close>: only when \<open>huge_pages_status\<close> is \<open>HUGE_PAGES_ON\<close> is
  \<open>GetHugePageSize\<close> called, and then the local is overwritten through the pointer with
  whatever that routine stores; the two sizes are never compared.
\<close>

definition pg_numa_get_pagesize :: "build \<Rightarrow> host \<Rightarrow> Size io" where
  "pg_numa_get_pagesize b h w =
     (let os_page_size0 = os_page_size b h
      in if huge_pages_status w = HUGE_PAGES_ON
         then (case GetHugePageSize h of
                 (os_page_size1, eo) \<Rightarrow> Inr (os_page_size1, leave_errno eo w))
         else Inr (os_page_size0, w))"

text \<open>
  \<open>pg_numa_available\<close> (lines 164-168) is compiled in both shapes. It ignores its
  \<open>fcinfo\<close>; \<open>PG_RETURN_BOOL\<close> returns the comparison as a boolean datum.
\<close>

definition pg_numa_available :: "build \<Rightarrow> host \<Rightarrow> bool io" where
  "pg_numa_available b h w =
     (case pg_numa_init b h w of
        Inl e \<Rightarrow> Inl e
      | Inr (r, w') \<Rightarrow> Inr (r \<noteq> - 1, w'))"

subsection \<open>The logging adapters\<close>

text \<open>
  \<open>numa_warn\<close> and \<open>numa_error\<close> (lines 79-120) exist in builds with libnuma that are
  not \<open>FRONTEND\<close> builds; libnuma calls them instead of its own weak definitions. They
  use routines of the engine that pg_numa.c does not define. Those are parameters: a
  helper sees \<open>errno\<close> and the allocator state, may change both, and may leave through
  the error exit (out of memory); it cannot touch anything else.
  \<^item> \<open>initStringInfo\<close> yields the initialised \<open>StringInfoData\<close>;
  \<^item> \<open>appendStringInfoVA\<close>, for a buffer, a format and its arguments, yields its
    \<open>int\<close> result and the buffer afterwards;
  \<^item> \<open>enlargeStringInfo\<close> yields the enlarged buffer;
  \<^item> \<open>msg_data\<close> is the field \<open>data\<close> of the buffer, read as a C string;
  \<^item> \<open>pfree\<close> releases it;
  \<^item> \<open>report_errno\<close> is the \<open>errno\<close> that emitting a report leaves behind.
\<close>

type_synonym 'a helper = "cint \<times> nat \<Rightarrow> pg_error + 'a \<times> cint \<times> nat"

record ('si, 'va) engine =
  initStringInfo :: "'si helper"
  appendStringInfoVA :: "'si \<Rightarrow> string \<Rightarrow> 'va \<Rightarrow> (cint \<times> 'si) helper"
  enlargeStringInfo :: "'si \<Rightarrow> cint \<Rightarrow> 'si helper"
  msg_data :: "'si \<Rightarrow> string"
  pfree :: "string \<Rightarrow> unit helper"
  report_errno :: "report \<Rightarrow> cint \<Rightarrow> cint"

text \<open>Calling a helper from a state, and sequencing with the error exit propagated.\<close>

definition call :: "'a helper \<Rightarrow> 'a io" where
  "call f w =
     (case f (errno w, mcxt w) of
        Inl e \<Rightarrow> Inl e
      | Inr (x, e', m') \<Rightarrow> Inr (x, w\<lparr>errno := e', mcxt := m'\<rparr>))"

definition seq :: "'a io \<Rightarrow> ('a \<Rightarrow> 'b io) \<Rightarrow> 'b io" where
  "seq m f w = (case m w of Inl e \<Rightarrow> Inl e | Inr (x, w') \<Rightarrow> f x w')"

definition ret :: "'a \<Rightarrow> 'a io" where
  "ret x w = Inr (x, w)"

text \<open>
  Modelled from the spec: \<open>ereport\<close> and \<open>elog\<close> are macros of the engine's elog.h,
  absent from pg_numa.c. The spec calls their target "the engine's own diagnostic channel"
  and a \<open>WARNING\<close> a "non-fatal diagnostic message": a report is appended to the channel,
  \<open>errno\<close> is whatever the reporting machinery leaves, and only a level of \<open>ERROR\<close> or
  above does not return to the caller. \<open>elog\<close> is \<open>ereport\<close> without an error code.
\<close>

definition ereport ::
  "('si, 'va) engine \<Rightarrow> elevel \<Rightarrow> sqlstate option \<Rightarrow> string \<Rightarrow> unit io" where
  "ereport g lvl code text w =
     (let r = \<lparr>r_elevel = lvl, r_errcode = code, r_message = text\<rparr>;
          w' = w\<lparr>errno := report_errno g r (errno w), diag := diag w @ [r]\<rparr>
      in if lvl \<in> {ERROR, FATAL, PANIC} then Inl (Raised lvl text) else Inr ((), w'))"

text \<open>
  \<open>numa_warn\<close> (lines 79-107). \<open>num\<close> is not used. The message is formatted into a
  fresh buffer, with one retry after enlarging when the first attempt reports a positive
  number of bytes needed; the result of the retry is ignored.
\<close>

definition numa_warn :: "('si, 'va) engine \<Rightarrow> cint \<Rightarrow> string \<Rightarrow> 'va \<Rightarrow> unit io" where
  "numa_warn g num fmt ap w =
     (let olde = errno w in
      seq (call (initStringInfo g)) (\<lambda>msg0.
      seq (call (appendStringInfoVA g msg0 fmt ap)) (\<lambda>(needed, msg1).
      seq (if 0 <s needed
           then seq (call (enlargeStringInfo g msg1 needed)) (\<lambda>msg2.
                seq (call (appendStringInfoVA g msg2 fmt ap)) (\<lambda>(ignored, msg3).
                ret msg3))
           else ret msg1) (\<lambda>msg.
      seq (ereport g WARNING (Some ERRCODE_EXTERNAL_ROUTINE_EXCEPTION)
             (''libnuma: WARNING: '' @ msg_data g msg)) (\<lambda>u.
      seq (call (pfree g (msg_data g msg))) (\<lambda>u.
      (\<lambda>w'. Inr ((), w'\<lparr>errno := olde\<rparr>))))))) w)"

text \<open>\<open>numa_error\<close> (lines 109-120).\<close>

definition numa_error :: "('si, 'va) engine \<Rightarrow> string \<Rightarrow> unit io" where
  "numa_error g where' w =
     (let olde = errno w in
      seq (ereport g WARNING None (''libnuma: ERROR: '' @ where')) (\<lambda>u.
      (\<lambda>w'. Inr ((), w'\<lparr>errno := olde\<rparr>))) w)"

text \<open>An engine whose helpers never take the error exit.\<close>

definition never_raises :: "('si, 'va) engine \<Rightarrow> bool" where
  "never_raises g =
     ((\<forall>s. \<not> isl (initStringInfo g s))
      \<and> (\<forall>m f a s. \<not> isl (appendStringInfoVA g m f a s))
      \<and> (\<forall>m n s. \<not> isl (enlargeStringInfo g m n s))
      \<and> (\<forall>d s. \<not> isl (pfree g d s)))"

text \<open>Calling a routine twice in a row, keeping both results.\<close>

definition twice :: "'a io \<Rightarrow> ('a \<times> 'a) io" where
  "twice m = seq m (\<lambda>x. seq m (\<lambda>y. ret (x, y)))"

text \<open>
  Postconditions of a run: \<open>post\<close> holds of a run that left through the error exit,
  \<open>tpost\<close> demands a normal return.
\<close>

definition post :: "(pg_error + 'a \<times> world) \<Rightarrow> ('a \<Rightarrow> world \<Rightarrow> bool) \<Rightarrow> bool" where
  "post r Q = (case r of Inl e \<Rightarrow> True | Inr (x, w') \<Rightarrow> Q x w')"

definition tpost :: "(pg_error + 'a \<times> world) \<Rightarrow> ('a \<Rightarrow> world \<Rightarrow> bool) \<Rightarrow> bool" where
  "tpost r Q = (case r of Inl e \<Rightarrow> False | Inr (x, w') \<Rightarrow> Q x w')"

subsection \<open>Powers of two\<close>


subsection \<open>Concrete builds, hosts and states\<close>

definition stub_build :: build where
  "stub_build = \<lparr>USE_LIBNUMA = False, WIN32 = False\<rparr>"

definition libnuma_build :: build where
  "libnuma_build = \<lparr>USE_LIBNUMA = True, WIN32 = False\<rparr>"

definition win32_build :: build where
  "win32_build = \<lparr>USE_LIBNUMA = False, WIN32 = True\<rparr>"

text \<open>
  A two-node Linux machine with 4 kB pages and 2 MB huge pages, every queried page on
  node 1.
\<close>

definition linux_host :: host where
  "linux_host =
     \<lparr>numa_available = (0, None), numa_max_node = 1,
      numa_move_pages = (\<lambda>pid ps. (0, map (\<lambda>p. 1) ps, None)),
      sysconf_SC_PAGESIZE = 4096, dwPageSize = 4096,
      GetHugePageSize = (2097152, None)\<rparr>"

text \<open>
  The same machine seen from a process that may not call \<open>get_mempolicy\<close>: the probe
  fails with \<open>EPERM\<close> (1), so libnuma's \<open>numa_available\<close> answers \<open>-1\<close>, while
  \<open>numa_max_node\<close> still reports the two nodes configured in sysfs.
\<close>

definition denied_host :: host where
  "denied_host =
     \<lparr>numa_available = (- 1, Some 1), numa_max_node = 1,
      numa_move_pages = (\<lambda>pid ps. (- 1, [], Some 1)),
      sysconf_SC_PAGESIZE = 4096, dwPageSize = 4096,
      GetHugePageSize = (2097152, None)\<rparr>"

text \<open>
  A platform whose \<open>GetHugePageSize\<close> has no huge page size to report and stores zero,
  as the engine's implementation does where the size cannot be queried (its Windows port
  among them), while large pages can still be in use there.
\<close>

definition windows_host :: host where
  "windows_host =
     \<lparr>numa_available = (- 1, None), numa_max_node = 0,
      numa_move_pages = (\<lambda>pid ps. (- 1, [], None)),
      sysconf_SC_PAGESIZE = 0, dwPageSize = 4096,
      GetHugePageSize = (0, None)\<rparr>"

definition idle_world :: world where
  "idle_world =
     \<lparr>errno = 0, huge_pages_status = HUGE_PAGES_OFF, diag = [], mcxt = 0,
      mem = (\<lambda>a. 0)\<rparr>"

text \<open>
  A small engine: the fresh buffer has room for three characters, formatting appends the
  argument to the format, and every helper and the report leave their own value in
  \<open>errno\<close>.
\<close>

definition demo_engine :: "(string, string) engine" where
  "demo_engine =
     \<lparr>initStringInfo = (\<lambda>(e, m). Inr ([], 12, 4)),
      appendStringInfoVA = (\<lambda>msg fmt ap (e, m).
         if length (fmt @ ap) < m then Inr ((0, msg @ fmt @ ap), 22, m)
         else Inr ((of_nat (length (fmt @ ap) + 1), msg), e, m)),
      enlargeStringInfo = (\<lambda>msg n (e, m). Inr (msg, e, m + unat n)),
      msg_data = (\<lambda>msg. msg),
      pfree = (\<lambda>d (e, m). Inr ((), e, 0)),
      report_errno = (\<lambda>r e. 5)\<rparr>"

section \<open>Properties\<close>

subsection \<open>Availability\<close>

text \<open>
  C1. \<open>pg_numa_init\<close> and \<open>pg_numa_available\<close> always return normally (no error
  exit); \<open>pg_numa_available\<close> is true exactly when \<open>pg_numa_init\<close> returns a value
  other than \<open>-1\<close>. In a build without libnuma the value of \<open>pg_numa_init\<close> is the
  negative sentinel \<open>-1\<close> and the process state is untouched; with libnuma the value is
  the answer of \<open>numa_available\<close> and the state differs at most in the \<open>errno\<close> that
  call leaves.
\<close>

theorem pg_numa_available_iff_init:
  "\<exists>r w'. pg_numa_init b h w = Inr (r, w')
     \<and> pg_numa_available b h w = Inr (r \<noteq> - 1, w')
     \<and> (if USE_LIBNUMA b
         then r = fst (numa_available h) \<and> w' = leave_errno (snd (numa_available h)) w
         else r = - 1 \<and> sint r < 0 \<and> w' = w)"
  by (simp add: pg_numa_init_def pg_numa_available_def split: prod.splits)

text \<open>
  C9. In a build without libnuma \<open>pg_numa_available\<close> returns false on every host and in
  every state, because \<open>pg_numa_init\<close> returns \<open>-1\<close> there whatever the hardware is.
\<close>

theorem pg_numa_available_stub_false:
  "pg_numa_init (b\<lparr>USE_LIBNUMA := False\<rparr>) h w = Inr (- 1, w)
   \<and> pg_numa_available (b\<lparr>USE_LIBNUMA := False\<rparr>) h w = Inr (False, w)"
  by (simp add: pg_numa_init_def pg_numa_available_def)

subsection \<open>Page-location query\<close>

text \<open>
  C2. In a build without libnuma \<open>pg_numa_query_pages\<close> returns \<open>0\<close> for every pid,
  every page count (zero or not), every \<open>pages\<close> pointer and every \<open>status\<close> pointer,
  and it returns normally.
\<close>

theorem pg_numa_query_pages_stub_zero:
  "\<exists>w'. pg_numa_query_pages (b\<lparr>USE_LIBNUMA := False\<rparr>) h pid count pages status w
          = Inr (0, w')"
  by (simp add: pg_numa_query_pages_def)

text \<open>
  C8. In a build without libnuma \<open>pg_numa_query_pages\<close> writes nothing: the memory
  behind \<open>status\<close> and behind \<open>pages\<close>, and every other part of the process state, is
  after the call what it was before.
\<close>

theorem pg_numa_query_pages_stub_frame:
  "\<exists>r w'. pg_numa_query_pages (b\<lparr>USE_LIBNUMA := False\<rparr>) h pid count pages status w
            = Inr (r, w')
     \<and> w' = w
     \<and> int_mem w' = int_mem w
     \<and> ptr_mem w' = ptr_mem w
     \<and> (\<forall>i. int_mem w' (status + 4 * i) = int_mem w (status + 4 * i))
     \<and> load_pages (ptr_mem w') pages count = load_pages (ptr_mem w) pages count"
  by (simp add: pg_numa_query_pages_def)

subsection \<open>Max-node query\<close>

text \<open>
  C3, as amended. \<open>pg_numa_get_max_node\<close> returns zero in every build without libnuma;
  with libnuma it returns what \<open>numa_max_node\<close> reports, the highest node number known
  to the library, whether or not \<open>pg_numa_init\<close> reported NUMA as available.
\<close>

theorem pg_numa_get_max_node_value:
  "pg_numa_get_max_node b h w = Inr (if USE_LIBNUMA b then numa_max_node h else 0, w)
   \<and> pg_numa_get_max_node (b\<lparr>USE_LIBNUMA := False\<rparr>) h w = Inr (0, w)"
  by (simp add: pg_numa_get_max_node_def)

text \<open>
  C3 as stated fails: built with libnuma, on a host where \<open>numa_available\<close> answers
  \<open>-1\<close> while \<open>numa_max_node\<close> answers \<open>1\<close>, topology information is reported
  unavailable and the max-node query still returns \<open>1\<close>, not zero.
\<close>

theorem pg_numa_get_max_node_unavailable_nonzero:
  "\<not> (pg_numa_init libnuma_build denied_host idle_world
        = Inr (- 1, idle_world\<lparr>errno := 1\<rparr>)
      \<longrightarrow> pg_numa_get_max_node libnuma_build denied_host idle_world = Inr (0, idle_world))"
  by (simp add: pg_numa_init_def pg_numa_get_max_node_def libnuma_build_def denied_host_def
      leave_errno_def)

subsection \<open>Page-size query\<close>


text \<open>
  C4, as amended. \<open>pg_numa_get_pagesize\<close> returns the page size the operating system
  reports (\<open>sysconf(_SC_PAGESIZE)\<close>, or \<open>dwPageSize\<close> in the wrapper built for
  \<open>WIN32\<close>); when \<open>huge_pages_status\<close> is \<open>HUGE_PAGES_ON\<close> it returns instead the
  value \<open>GetHugePageSize\<close> stores, whatever that is: the default is replaced, not
  compared with it. Apart from the \<open>errno\<close> that \<open>GetHugePageSize\<close> leaves, the state
  is untouched.
\<close>

theorem pg_numa_get_pagesize_value:
  "\<exists>w'. pg_numa_get_pagesize b h w
          = Inr (if huge_pages_status w = HUGE_PAGES_ON then fst (GetHugePageSize h)
                 else if USE_LIBNUMA b then sysconf_SC_PAGESIZE h
                 else if WIN32 b then ucast (dwPageSize h)
                 else sysconf_SC_PAGESIZE h, w')
        \<and> w' = (if huge_pages_status w = HUGE_PAGES_ON
                 then leave_errno (snd (GetHugePageSize h)) w else w)"
  by (simp add: pg_numa_get_pagesize_def os_page_size_def split: prod.splits)

text \<open>
  C4 as stated fails: where \<open>GetHugePageSize\<close> stores zero and huge pages are on, the
  result is zero, below the default page size of 4096 that the same build on the same
  host returns with huge pages off. The value is not adjusted upward.
\<close>

theorem pg_numa_get_pagesize_not_upward:
  "pg_numa_get_pagesize win32_build windows_host (idle_world\<lparr>huge_pages_status := HUGE_PAGES_ON\<rparr>)
     = Inr (0, idle_world\<lparr>huge_pages_status := HUGE_PAGES_ON\<rparr>)
   \<and> pg_numa_get_pagesize win32_build windows_host (idle_world\<lparr>huge_pages_status := HUGE_PAGES_OFF\<rparr>)
     = Inr (4096, idle_world\<lparr>huge_pages_status := HUGE_PAGES_OFF\<rparr>)
   \<and> \<not> (4096 :: Size) \<le> 0"
  by (simp add: pg_numa_get_pagesize_def os_page_size_def win32_build_def windows_host_def
      leave_errno_def)

text \<open>
  C10. For every value of \<open>huge_pages_status\<close> other than \<open>HUGE_PAGES_ON\<close> (off, try,
  unknown) \<open>pg_numa_get_pagesize\<close> returns the unadjusted default page size.
\<close>

theorem pg_numa_get_pagesize_only_when_on:
  "huge_pages_status w \<noteq> HUGE_PAGES_ON
   \<Longrightarrow> pg_numa_get_pagesize b h w = Inr (os_page_size b h, w)"
  by (simp add: pg_numa_get_pagesize_def)

theorem pg_numa_get_pagesize_only_when_on_witness:
  "pg_numa_get_pagesize stub_build linux_host (idle_world\<lparr>huge_pages_status := HUGE_PAGES_OFF\<rparr>)
     = Inr (4096, idle_world\<lparr>huge_pages_status := HUGE_PAGES_OFF\<rparr>)
   \<and> pg_numa_get_pagesize stub_build linux_host (idle_world\<lparr>huge_pages_status := HUGE_PAGES_TRY\<rparr>)
     = Inr (4096, idle_world\<lparr>huge_pages_status := HUGE_PAGES_TRY\<rparr>)
   \<and> pg_numa_get_pagesize stub_build linux_host (idle_world\<lparr>huge_pages_status := HUGE_PAGES_UNKNOWN\<rparr>)
     = Inr (4096, idle_world\<lparr>huge_pages_status := HUGE_PAGES_UNKNOWN\<rparr>)"
  using
    pg_numa_get_pagesize_only_when_on
      [of "idle_world\<lparr>huge_pages_status := HUGE_PAGES_OFF\<rparr>" stub_build linux_host]
    pg_numa_get_pagesize_only_when_on
      [of "idle_world\<lparr>huge_pages_status := HUGE_PAGES_TRY\<rparr>" stub_build linux_host]
    pg_numa_get_pagesize_only_when_on
      [of "idle_world\<lparr>huge_pages_status := HUGE_PAGES_UNKNOWN\<rparr>" stub_build linux_host]
  by (simp add: os_page_size_def stub_build_def linux_host_def)



subsection \<open>Rules for runs\<close>

lemma post_seq: "post (m w) (\<lambda>x w'. post (f x w') Q) \<Longrightarrow> post (seq m f w) Q"
  by (simp add: post_def seq_def split: sum.splits prod.splits)

lemma post_call:
  "(\<And>x e m. f (errno w, mcxt w) = Inr (x, e, m) \<Longrightarrow> Q x (w\<lparr>errno := e, mcxt := m\<rparr>))
   \<Longrightarrow> post (call f w) Q"
  by (simp add: post_def call_def split: sum.splits prod.splits)

lemma post_ret: "Q x w \<Longrightarrow> post (ret x w) Q"
  by (simp add: post_def ret_def)

lemma post_ereport:
  "(\<And>e. Q () (w\<lparr>errno := e,
        diag := diag w @ [\<lparr>r_elevel = lvl, r_errcode = code, r_message = text\<rparr>]\<rparr>))
   \<Longrightarrow> post (ereport g lvl code text w) Q"
  by (simp add: post_def ereport_def Let_def)

lemma post_if:
  "(c \<Longrightarrow> post (m w) Q) \<Longrightarrow> (\<not> c \<Longrightarrow> post (n w) Q) \<Longrightarrow> post ((if c then m else n) w) Q"
  by simp

lemma post_prod:
  "(\<And>a b. p = (a, b) \<Longrightarrow> post (f a b w) Q) \<Longrightarrow> post (case_prod f p w) Q"
  by (cases p) simp

lemma post_Inr: "Q x w \<Longrightarrow> post (Inr (x, w)) Q"
  by (simp add: post_def)

lemma tpost_seq: "tpost (m w) (\<lambda>x w'. tpost (f x w') Q) \<Longrightarrow> tpost (seq m f w) Q"
  by (simp add: tpost_def seq_def split: sum.splits prod.splits)

lemma tpost_call:
  "\<not> isl (f (errno w, mcxt w)) \<Longrightarrow> (\<And>x e m. Q x (w\<lparr>errno := e, mcxt := m\<rparr>))
   \<Longrightarrow> tpost (call f w) Q"
  by (auto simp: tpost_def call_def split: sum.splits prod.splits)

lemma tpost_ret: "Q x w \<Longrightarrow> tpost (ret x w) Q"
  by (simp add: tpost_def ret_def)

lemma tpost_ereport_WARNING:
  "(\<And>e. Q () (w\<lparr>errno := e,
        diag := diag w @ [\<lparr>r_elevel = WARNING, r_errcode = code, r_message = text\<rparr>]\<rparr>))
   \<Longrightarrow> tpost (ereport g WARNING code text w) Q"
  by (simp add: tpost_def ereport_def Let_def)

lemma tpost_if:
  "(c \<Longrightarrow> tpost (m w) Q) \<Longrightarrow> (\<not> c \<Longrightarrow> tpost (n w) Q) \<Longrightarrow> tpost ((if c then m else n) w) Q"
  by simp

lemma tpost_prod:
  "(\<And>a b. p = (a, b) \<Longrightarrow> tpost (f a b w) Q) \<Longrightarrow> tpost (case_prod f p w) Q"
  by (cases p) simp

lemma tpost_Inr: "Q x w \<Longrightarrow> tpost (Inr (x, w)) Q"
  by (simp add: tpost_def)

subsection \<open>Logging adapters\<close>

lemma numa_warn_post:
  "post (numa_warn g num fmt ap w)
     (\<lambda>u w'. errno w' = errno w
        \<and> w' = w\<lparr>diag := diag w', mcxt := mcxt w'\<rparr>
        \<and> (\<exists>msg0 s0 needed msg1 s1 msg.
              initStringInfo g (errno w, mcxt w) = Inr (msg0, s0)
            \<and> appendStringInfoVA g msg0 fmt ap s0 = Inr ((needed, msg1), s1)
            \<and> (if 0 <s needed
                then \<exists>msg2 s2 ignored s3.
                       enlargeStringInfo g msg1 needed s1 = Inr (msg2, s2)
                     \<and> appendStringInfoVA g msg2 fmt ap s2 = Inr ((ignored, msg), s3)
                else msg = msg1)
            \<and> diag w' = diag w @ [\<lparr>r_elevel = WARNING,
                          r_errcode = Some ERRCODE_EXTERNAL_ROUTINE_EXCEPTION,
                          r_message = ''libnuma: WARNING: '' @ msg_data g msg\<rparr>]))"
  unfolding numa_warn_def Let_def
  apply (rule post_seq, rule post_call)
  apply (rule post_seq, rule post_call)
  apply (rule post_prod)
  apply (rule post_seq)
   apply (rule post_if)
    apply (rule post_seq, rule post_call)
    apply (rule post_seq, rule post_call)
    apply (rule post_prod)
    apply (rule post_ret)
    apply (rule post_seq, rule post_ereport)
    apply (rule post_seq, rule post_call)
    apply (rule post_Inr)
    apply simp
   apply (rule post_ret)
   apply (rule post_seq, rule post_ereport)
   apply (rule post_seq, rule post_call)
   apply (rule post_Inr)
   apply simp
  done

lemma numa_warn_tpost:
  assumes nr: "never_raises g"
  shows "tpost (numa_warn g num fmt ap w) (\<lambda>u w'. True)"
proof -
  have i: "\<And>s. \<not> isl (initStringInfo g s)"
    and a: "\<And>m f v s. \<not> isl (appendStringInfoVA g m f v s)"
    and e: "\<And>m n s. \<not> isl (enlargeStringInfo g m n s)"
    and p: "\<And>d s. \<not> isl (pfree g d s)"
    using nr unfolding never_raises_def by blast+
  show ?thesis
    unfolding numa_warn_def Let_def
    apply (rule tpost_seq, rule tpost_call [OF i])
    apply (rule tpost_seq, rule tpost_call [OF a])
    apply (rule tpost_prod)
    apply (rule tpost_seq)
     apply (rule tpost_if)
      apply (rule tpost_seq, rule tpost_call [OF e])
      apply (rule tpost_seq, rule tpost_call [OF a])
      apply (rule tpost_prod)
      apply (rule tpost_ret)
      apply (rule tpost_seq, rule tpost_ereport_WARNING)
      apply (rule tpost_seq, rule tpost_call [OF p])
      apply (rule tpost_Inr)
      apply simp
     apply (rule tpost_ret)
     apply (rule tpost_seq, rule tpost_ereport_WARNING)
     apply (rule tpost_seq, rule tpost_call [OF p])
     apply (rule tpost_Inr)
     apply simp
    done
qed

lemma numa_error_result:
  "numa_error g where' w
     = Inr ((), w\<lparr>diag := diag w @ [\<lparr>r_elevel = WARNING, r_errcode = None,
                                      r_message = ''libnuma: ERROR: '' @ where'\<rparr>]\<rparr>)"
  by (simp add: numa_error_def seq_def ereport_def Let_def)

text \<open>
  C6. \<open>numa_error\<close> always returns, having appended exactly one \<open>WARNING\<close> report
  with the library's text to the diagnostic channel, with \<open>errno\<close> as it was at entry.
  Whenever \<open>numa_warn\<close> returns, \<open>errno\<close> is as it was at entry, whatever the helpers
  and the report did to it in between, and exactly one \<open>WARNING\<close> report has been
  appended: its text is \<open>libnuma: WARNING:\<close> followed by the contents of the buffer into
  which the library's format and arguments were formatted (after one retry in an enlarged
  buffer when the first attempt asks for more room). \<open>numa_warn\<close> does return when no
  helper takes the error exit.
\<close>

theorem numa_adapters_preserve_errno:
  "(\<exists>w'. numa_error g where' w = Inr ((), w')
        \<and> errno w' = errno w
        \<and> diag w' = diag w @ [\<lparr>r_elevel = WARNING, r_errcode = None,
                                 r_message = ''libnuma: ERROR: '' @ where'\<rparr>])
   \<and> (\<forall>w'. numa_warn g num fmt ap w = Inr ((), w')
          \<longrightarrow> errno w' = errno w
              \<and> (\<exists>msg0 s0 needed msg1 s1 msg.
                    initStringInfo g (errno w, mcxt w) = Inr (msg0, s0)
                  \<and> appendStringInfoVA g msg0 fmt ap s0 = Inr ((needed, msg1), s1)
                  \<and> (if 0 <s needed
                      then \<exists>msg2 s2 ignored s3.
                             enlargeStringInfo g msg1 needed s1 = Inr (msg2, s2)
                           \<and> appendStringInfoVA g msg2 fmt ap s2 = Inr ((ignored, msg), s3)
                      else msg = msg1)
                  \<and> diag w' = diag w @ [\<lparr>r_elevel = WARNING,
                                r_errcode = Some ERRCODE_EXTERNAL_ROUTINE_EXCEPTION,
                                r_message = ''libnuma: WARNING: '' @ msg_data g msg\<rparr>]))
   \<and> (never_raises g \<longrightarrow> (\<exists>w'. numa_warn g num fmt ap w = Inr ((), w')))"
proof (intro conjI allI impI)
  show "\<exists>w'. numa_error g where' w = Inr ((), w')
        \<and> errno w' = errno w
        \<and> diag w' = diag w @ [\<lparr>r_elevel = WARNING, r_errcode = None,
                                 r_message = ''libnuma: ERROR: '' @ where'\<rparr>]"
    by (simp add: numa_error_result)
next
  fix w' assume "numa_warn g num fmt ap w = Inr ((), w')"
  with numa_warn_post [of g num fmt ap w]
  show "errno w' = errno w"
    by (simp add: post_def)
next
  fix w' assume "numa_warn g num fmt ap w = Inr ((), w')"
  with numa_warn_post [of g num fmt ap w]
  show "\<exists>msg0 s0 needed msg1 s1 msg.
           initStringInfo g (errno w, mcxt w) = Inr (msg0, s0)
         \<and> appendStringInfoVA g msg0 fmt ap s0 = Inr ((needed, msg1), s1)
         \<and> (if 0 <s needed
             then \<exists>msg2 s2 ignored s3.
                    enlargeStringInfo g msg1 needed s1 = Inr (msg2, s2)
                  \<and> appendStringInfoVA g msg2 fmt ap s2 = Inr ((ignored, msg), s3)
             else msg = msg1)
         \<and> diag w' = diag w @ [\<lparr>r_elevel = WARNING,
                       r_errcode = Some ERRCODE_EXTERNAL_ROUTINE_EXCEPTION,
                       r_message = ''libnuma: WARNING: '' @ msg_data g msg\<rparr>]"
    by (simp add: post_def)
next
  assume "never_raises g"
  from numa_warn_tpost [OF this, of num fmt ap w]
  show "\<exists>w'. numa_warn g num fmt ap w = Inr ((), w')"
    by (auto simp: tpost_def split: sum.splits)
qed

theorem numa_adapters_preserve_errno_witness:
  "never_raises demo_engine
   \<and> numa_warn demo_engine 0 ''no node '' ''7'' (idle_world\<lparr>errno := 2\<rparr>)
       = Inr ((), idle_world\<lparr>errno := 2, mcxt := 0,
            diag := [\<lparr>r_elevel = WARNING, r_errcode = Some ERRCODE_EXTERNAL_ROUTINE_EXCEPTION,
                     r_message = ''libnuma: WARNING: no node 7''\<rparr>]\<rparr>)
   \<and> errno (snd (projr (numa_warn demo_engine 0 ''no node '' ''7'' (idle_world\<lparr>errno := 2\<rparr>)))) = 2
   \<and> numa_error demo_engine ''mbind'' (idle_world\<lparr>errno := 2\<rparr>)
       = Inr ((), idle_world\<lparr>errno := 2,
            diag := [\<lparr>r_elevel = WARNING, r_errcode = None,
                     r_message = ''libnuma: ERROR: mbind''\<rparr>]\<rparr>)"
proof -
  have nr: "never_raises demo_engine"
    by (simp add: never_raises_def demo_engine_def split: prod.splits)
  have run: "numa_warn demo_engine 0 ''no node '' ''7'' (idle_world\<lparr>errno := 2\<rparr>)
       = Inr ((), idle_world\<lparr>errno := 2, mcxt := 0,
            diag := [\<lparr>r_elevel = WARNING, r_errcode = Some ERRCODE_EXTERNAL_ROUTINE_EXCEPTION,
                     r_message = ''libnuma: WARNING: no node 7''\<rparr>]\<rparr>)"
    by (simp add: numa_warn_def seq_def ret_def call_def Let_def ereport_def demo_engine_def
        idle_world_def word_sless_alt)
  have err: "numa_error demo_engine ''mbind'' (idle_world\<lparr>errno := 2\<rparr>)
       = Inr ((), idle_world\<lparr>errno := 2,
            diag := [\<lparr>r_elevel = WARNING, r_errcode = None,
                     r_message = ''libnuma: ERROR: mbind''\<rparr>]\<rparr>)"
    by (simp add: numa_error_def seq_def Let_def ereport_def demo_engine_def idle_world_def)
  show ?thesis
    using nr run err
      numa_adapters_preserve_errno
        [of demo_engine "''mbind''" "idle_world\<lparr>errno := 2\<rparr>" 0 "''no node ''" "''7''"]
    by simp
qed

subsection \<open>Writes to memory\<close>

lemma region_iff: "a \<in> region p n \<longleftrightarrow> (\<exists>k<n. a = p + of_nat k)"
  by (auto simp: region_def)

lemma store_int_outside: "a \<notin> region p 4 \<Longrightarrow> store_int m p v a = m a"
proof -
  assume out: "a \<notin> region p 4"
  have "a \<noteq> p + of_nat k" if "k < 4" for k
    using out that by (auto simp: region_iff)
  from this [of 0] this [of 1] this [of 2] this [of 3]
  show ?thesis
    by (simp add: store_int_def)
qed

lemma store_status_outside:
  "a \<notin> region p (4 * length xs) \<Longrightarrow> store_status m p xs a = m a"
proof (induction xs arbitrary: m p)
  case Nil
  then show ?case by simp
next
  case (Cons x xs)
  have tail: "a \<notin> region (p + 4) (4 * length xs)"
  proof
    assume "a \<in> region (p + 4) (4 * length xs)"
    then obtain k where "k < 4 * length xs" and "a = p + 4 + of_nat k"
      by (auto simp: region_iff)
    then have "4 + k < 4 * length (x # xs)" and "a = p + of_nat (4 + k)"
      by simp_all
    then have "a \<in> region p (4 * length (x # xs))"
      unfolding region_iff by blast
    with Cons.prems show False by simp
  qed
  have head: "a \<notin> region p 4"
  proof
    assume "a \<in> region p 4"
    then obtain k where "k < 4" and "a = p + of_nat k"
      by (auto simp: region_iff)
    then have "k < 4 * length (x # xs)" and "a = p + of_nat k"
      by simp_all
    then have "a \<in> region p (4 * length (x # xs))"
      unfolding region_iff by blast
    with Cons.prems show False by simp
  qed
  show ?case
    using Cons.IH [OF tail] store_int_outside [OF head] by simp
qed

lemma region_mono: "n \<le> n' \<Longrightarrow> region p n \<subseteq> region p n'"
  by (auto simp: region_def)

lemma store_status_take_outside:
  assumes "a \<notin> region p (4 * n)"
  shows "store_status m p (take n xs) a = m a"
proof -
  have "region p (4 * length (take n xs)) \<subseteq> region p (4 * n)"
    by (rule region_mono) simp
  with assms have "a \<notin> region p (4 * length (take n xs))"
    by blast
  then show ?thesis
    by (rule store_status_outside)
qed

lemma load_ptr_cong:
  assumes "\<And>k. k < 8 \<Longrightarrow> m' (p + of_nat k) = m (p + of_nat k)"
  shows "load_ptr m' p = load_ptr m p"
proof -
  have "map (\<lambda>k. push_bit (8 * k) (ucast (m' (p + of_nat k)) :: addr)) [0 ..< 8]
      = map (\<lambda>k. push_bit (8 * k) (ucast (m (p + of_nat k)))) [0 ..< 8]"
    by (rule map_cong) (simp_all add: assms)
  then show ?thesis
    by (simp only: load_ptr_def)
qed

lemma load_pages_cong:
  assumes same: "\<And>a. a \<in> region pages (8 * unat count) \<Longrightarrow> m' a = m a"
  shows "load_pages (load_ptr m') pages count = load_pages (load_ptr m) pages count"
  unfolding load_pages_def
proof (rule map_cong)
  fix i assume "i \<in> set [0 ..< unat count]"
  then have i: "i < unat count" by simp
  show "load_ptr m' (pages + 8 * of_nat i) = load_ptr m (pages + 8 * of_nat i)"
  proof (rule load_ptr_cong)
    fix k :: nat assume k: "k < 8"
    have "8 * i + k < 8 * unat count"
      using i k by simp
    moreover have "pages + 8 * of_nat i + of_nat k = pages + of_nat (8 * i + k)"
      by simp
    ultimately have "pages + 8 * of_nat i + of_nat k \<in> region pages (8 * unat count)"
      unfolding region_iff by blast
    then show "m' (pages + 8 * of_nat i + of_nat k) = m (pages + 8 * of_nat i + of_nat k)"
      by (rule same)
  qed
qed simp

lemma query_pages_keeps_pages:
  assumes disj: "region pages (8 * unat count) \<inter> region status (4 * unat count) = {}"
  shows "load_pages (load_ptr (store_status m status (take (unat count) nodes))) pages count
       = load_pages (load_ptr m) pages count"
proof (rule load_pages_cong)
  fix a assume "a \<in> region pages (8 * unat count)"
  with disj have "a \<notin> region status (4 * unat count)"
    by blast
  then show "store_status m status (take (unat count) nodes) a = m a"
    by (rule store_status_take_outside)
qed

lemma mem_leave_errno: "mem (leave_errno eo w) = mem w"
  by (simp add: leave_errno_def split: option.splits)

lemma query_pages_twice:
  assumes disj: "region pages (8 * unat count) \<inter> region status (4 * unat count) = {}"
  shows "\<exists>r w'. twice (pg_numa_query_pages b h pid count pages status) w = Inr ((r, r), w')
          \<and> w' = w\<lparr>errno := errno w', mem := mem w'\<rparr>
          \<and> (\<forall>a. a \<notin> region status (4 * unat count) \<longrightarrow> mem w' a = mem w a)
          \<and> (if USE_LIBNUMA b then True else w' = w)"
proof (cases "USE_LIBNUMA b")
  case False
  then show ?thesis
    by (simp add: twice_def seq_def ret_def pg_numa_query_pages_def)
next
  case True
  obtain r nodes eo where mp:
    "numa_move_pages h pid (load_pages (ptr_mem w) pages count) = (r, nodes, eo)"
    by (cases "numa_move_pages h pid (load_pages (ptr_mem w) pages count)") auto
  define m1 where "m1 = store_status (mem w) status (take (unat count) nodes)"
  define w1 where "w1 = leave_errno eo (w\<lparr>mem := m1\<rparr>)"
  have first: "pg_numa_query_pages b h pid count pages status w = Inr (r, w1)"
    using True mp by (simp add: pg_numa_query_pages_def w1_def m1_def)
  have mem1: "mem w1 = m1"
    by (simp add: w1_def mem_leave_errno)
  have "ptr_mem w1 = load_ptr m1"
    by (rule ext) (simp add: ptr_mem_def mem1)
  moreover have "ptr_mem w = load_ptr (mem w)"
    by (rule ext) (simp add: ptr_mem_def)
  ultimately have same: "load_pages (ptr_mem w1) pages count = load_pages (ptr_mem w) pages count"
    using query_pages_keeps_pages [OF disj, of "mem w" nodes] by (simp add: m1_def)
  define w2 where "w2 = leave_errno eo (w1\<lparr>mem := store_status m1 status (take (unat count) nodes)\<rparr>)"
  have second: "pg_numa_query_pages b h pid count pages status w1 = Inr (r, w2)"
    using True mp same by (simp add: pg_numa_query_pages_def w2_def mem1)
  have tw: "twice (pg_numa_query_pages b h pid count pages status) w = Inr ((r, r), w2)"
    using first second by (simp add: twice_def seq_def ret_def)
  have frame: "w2 = w\<lparr>errno := errno w2, mem := mem w2\<rparr>"
    by (simp add: w2_def w1_def leave_errno_def split: option.splits)
  have mem2: "mem w2 = store_status m1 status (take (unat count) nodes)"
    by (simp add: w2_def mem_leave_errno)
  have out: "mem w2 a = mem w a" if "a \<notin> region status (4 * unat count)" for a
    using that by (simp add: mem2 m1_def store_status_take_outside)
  show ?thesis
  proof (intro exI conjI allI impI)
    show "twice (pg_numa_query_pages b h pid count pages status) w = Inr ((r, r), w2)"
      by (rule tw)
    show "w2 = w\<lparr>errno := errno w2, mem := mem w2\<rparr>"
      by (rule frame)
    show "mem w2 a = mem w a" if "a \<notin> region status (4 * unat count)" for a
      using that by (rule out)
    show "if USE_LIBNUMA b then True else w2 = w"
      using True by simp
  qed
qed

lemma store_int_idem: "store_int (store_int m p v) p v = store_int m p v"
  by (rule ext) (simp add: store_int_def)

subsection \<open>Statelessness\<close>

text \<open>
  C7. On a fixed host and build (the external routines answer alike when asked alike),
  each query called twice in a row with the same arguments returns the same value both
  times, because the second call reads nothing the first one wrote. What a call can change
  is: nothing at all in a build without libnuma; with libnuma, at most the \<open>errno\<close> an
  external routine leaves and, for \<open>pg_numa_query_pages\<close>, the bytes of the caller's
  \<open>status\<close> array (here \<open>status\<close> and \<open>pages\<close> are arrays that do not overlap);
  for the adapters, the diagnostic channel and the allocator state. No routine writes
  \<open>huge_pages_status\<close> or any other variable, and the file has none of its own.
\<close>

theorem queries_stateless:
  "(\<exists>r w'. twice (pg_numa_init b h) w = Inr ((r, r), w')
        \<and> w' = w\<lparr>errno := errno w'\<rparr> \<and> (if USE_LIBNUMA b then True else w' = w))
   \<and> (\<exists>r w'. twice (pg_numa_available b h) w = Inr ((r, r), w')
        \<and> w' = w\<lparr>errno := errno w'\<rparr> \<and> (if USE_LIBNUMA b then True else w' = w))
   \<and> (\<exists>r. twice (pg_numa_get_max_node b h) w = Inr ((r, r), w))
   \<and> (\<exists>r w'. twice (pg_numa_get_pagesize b h) w = Inr ((r, r), w')
        \<and> w' = w\<lparr>errno := errno w'\<rparr>
        \<and> (if huge_pages_status w = HUGE_PAGES_ON then True else w' = w))
   \<and> (region pages (8 * unat count) \<inter> region status (4 * unat count) = {}
        \<longrightarrow> (\<exists>r w'. twice (pg_numa_query_pages b h pid count pages status) w = Inr ((r, r), w')
               \<and> w' = w\<lparr>errno := errno w', mem := mem w'\<rparr>
               \<and> (\<forall>a. a \<notin> region status (4 * unat count) \<longrightarrow> mem w' a = mem w a)
               \<and> (if USE_LIBNUMA b then True else w' = w)))
   \<and> (\<exists>w'. numa_error g where' w = Inr ((), w') \<and> w' = w\<lparr>diag := diag w'\<rparr>)
   \<and> (\<forall>w'. numa_warn g num fmt ap w = Inr ((), w')
          \<longrightarrow> w' = w\<lparr>diag := diag w', mcxt := mcxt w'\<rparr>)"
proof (intro conjI allI impI)
  show "\<exists>r w'. twice (pg_numa_init b h) w = Inr ((r, r), w')
        \<and> w' = w\<lparr>errno := errno w'\<rparr> \<and> (if USE_LIBNUMA b then True else w' = w)"
    by (simp add: twice_def seq_def ret_def pg_numa_init_def leave_errno_def
        split: prod.splits option.splits)
  show "\<exists>r w'. twice (pg_numa_available b h) w = Inr ((r, r), w')
        \<and> w' = w\<lparr>errno := errno w'\<rparr> \<and> (if USE_LIBNUMA b then True else w' = w)"
    by (auto simp: twice_def seq_def ret_def pg_numa_available_def pg_numa_init_def
        leave_errno_def split: prod.splits option.splits)
  show "\<exists>r. twice (pg_numa_get_max_node b h) w = Inr ((r, r), w)"
    by (simp add: twice_def seq_def ret_def pg_numa_get_max_node_def)
  show "\<exists>r w'. twice (pg_numa_get_pagesize b h) w = Inr ((r, r), w')
        \<and> w' = w\<lparr>errno := errno w'\<rparr>
        \<and> (if huge_pages_status w = HUGE_PAGES_ON then True else w' = w)"
    by (simp add: twice_def seq_def ret_def pg_numa_get_pagesize_def leave_errno_def
        split: prod.splits option.splits)
  show "\<exists>w'. numa_error g where' w = Inr ((), w') \<and> w' = w\<lparr>diag := diag w'\<rparr>"
    by (simp add: numa_error_result)
next
  assume "region pages (8 * unat count) \<inter> region status (4 * unat count) = {}"
  then show "\<exists>r w'. twice (pg_numa_query_pages b h pid count pages status) w = Inr ((r, r), w')
               \<and> w' = w\<lparr>errno := errno w', mem := mem w'\<rparr>
               \<and> (\<forall>a. a \<notin> region status (4 * unat count) \<longrightarrow> mem w' a = mem w a)
               \<and> (if USE_LIBNUMA b then True else w' = w)"
    by (rule query_pages_twice)
next
  fix w' assume "numa_warn g num fmt ap w = Inr ((), w')"
  with numa_warn_post [of g num fmt ap w]
  show "w' = w\<lparr>diag := diag w', mcxt := mcxt w'\<rparr>"
    by (simp add: post_def)
qed

theorem queries_stateless_witness:
  "region 4096 (8 * unat (1 :: clong)) \<inter> region 8192 (4 * unat (1 :: clong)) = {}
   \<and> twice (pg_numa_query_pages libnuma_build linux_host 0 1 4096 8192) idle_world
     = Inr ((0, 0), idle_world\<lparr>mem := store_int (\<lambda>a. 0) 8192 1\<rparr>)
   \<and> int_mem (idle_world\<lparr>mem := store_int (\<lambda>a. 0) 8192 1\<rparr>) 8192 = 1
   \<and> twice (pg_numa_init libnuma_build denied_host) idle_world
     = Inr ((- 1, - 1), idle_world\<lparr>errno := 1\<rparr>)
   \<and> twice (pg_numa_get_pagesize libnuma_build linux_host) idle_world
     = Inr ((4096, 4096), idle_world)
   \<and> numa_warn demo_engine 0 ''no node '' ''7'' idle_world
       = Inr ((), idle_world\<lparr>mcxt := 0,
            diag := [\<lparr>r_elevel = WARNING, r_errcode = Some ERRCODE_EXTERNAL_ROUTINE_EXCEPTION,
                     r_message = ''libnuma: WARNING: no node 7''\<rparr>]\<rparr>)"
proof -
  have disj: "region 4096 (8 * unat (1 :: clong)) \<inter> region 8192 (4 * unat (1 :: clong)) = {}"
    by (simp add: region_def upt_rec)
  have query: "twice (pg_numa_query_pages libnuma_build linux_host 0 1 4096 8192) idle_world
      = Inr ((0, 0), idle_world\<lparr>mem := store_int (\<lambda>a. 0) 8192 1\<rparr>)"
    by (simp add: twice_def seq_def ret_def pg_numa_query_pages_def libnuma_build_def
        linux_host_def idle_world_def leave_errno_def load_pages_def store_int_idem)
  have stored: "int_mem (idle_world\<lparr>mem := store_int (\<lambda>a. 0) 8192 1\<rparr>) 8192 = 1"
    by (simp add: int_mem_def load_int_def store_int_def upt_rec)
  have init: "twice (pg_numa_init libnuma_build denied_host) idle_world
      = Inr ((- 1, - 1), idle_world\<lparr>errno := 1\<rparr>)"
    by (simp add: twice_def seq_def ret_def pg_numa_init_def libnuma_build_def
        denied_host_def leave_errno_def)
  have ps: "twice (pg_numa_get_pagesize libnuma_build linux_host) idle_world
     = Inr ((4096, 4096), idle_world)"
    by (simp add: twice_def seq_def ret_def pg_numa_get_pagesize_def os_page_size_def
        libnuma_build_def linux_host_def idle_world_def)
  have run: "numa_warn demo_engine 0 ''no node '' ''7'' idle_world
       = Inr ((), idle_world\<lparr>mcxt := 0,
            diag := [\<lparr>r_elevel = WARNING, r_errcode = Some ERRCODE_EXTERNAL_ROUTINE_EXCEPTION,
                     r_message = ''libnuma: WARNING: no node 7''\<rparr>]\<rparr>)"
    by (simp add: numa_warn_def seq_def ret_def call_def Let_def ereport_def demo_engine_def
        idle_world_def word_sless_alt)
  show ?thesis
    using disj query stored init ps run
      queries_stateless
        [of libnuma_build linux_host idle_world 4096 1 8192 0 demo_engine "''mbind''" 0
            "''no node ''" "''7''"]
    by simp
qed

end
